theory Spec2Isabelle
  imports Main "HOL-Library.Sublist"
begin

section \<open>JavaScript values of a request body\<close>

text \<open>
  The route handlers of \<^verbatim>\<open>server.js\<close> (and the HTTPS variant, whose
  \<^verbatim>\<open>/add-student\<close> and \<^verbatim>\<open>/students\<close> routes are the same text) read
  fields of \<^verbatim>\<open>req.body\<close>, which \<^verbatim>\<open>bodyParser.json()\<close> has parsed from a JSON
  object. A field is any JSON value, or \<^verbatim>\<open>undefined\<close> when the key is absent.

  Strings are lists of code units below 256. Numbers are the integers, in the range
  where JavaScript writes them in full (below \<^verbatim>\<open>1e21\<close> in magnitude); the handlers
  look at a number only through its truthiness and its decimal text. The rate limiter
  and the other middleware stand before the handlers and are not part of them.
\<close>

datatype jsval =
    JUndefined
  | JNull
  | JBool bool
  | JNum int
  | JStr string
  | JArr "jsval list"
  | JObj "(string \<times> jsval) list"

type_synonym body = "string \<rightharpoonup> jsval"

text \<open>\<^verbatim>\<open>const { k } = req.body\<close>: an absent key reads as \<^verbatim>\<open>undefined\<close>.\<close>

definition field :: "body \<Rightarrow> string \<Rightarrow> jsval" where
  "field b k = (case b k of None \<Rightarrow> JUndefined | Some v \<Rightarrow> v)"

text \<open>JavaScript's ToBoolean, which \<^verbatim>\<open>!x\<close> negates.\<close>

fun truthy :: "jsval \<Rightarrow> bool" where
  "truthy JUndefined = False"
| "truthy JNull = False"
| "truthy (JBool b) = b"
| "truthy (JNum n) = (n \<noteq> 0)"
| "truthy (JStr s) = (s \<noteq> [])"
| "truthy (JArr xs) = True"
| "truthy (JObj kvs) = True"

subsection \<open>ToString\<close>

definition digit_char :: "nat \<Rightarrow> char" where
  "digit_char d = ''0123456789'' ! d"

fun nat_digits :: "nat \<Rightarrow> string" where
  "nat_digits n =
     (if n < 10 then [digit_char n] else nat_digits (n div 10) @ [digit_char (n mod 10)])"

declare nat_digits.simps [simp del]

definition int_text :: "int \<Rightarrow> string" where
  "int_text n = (if n < 0 then CHR ''-'' # nat_digits (nat (- n)) else nat_digits (nat n))"

fun join_comma :: "string list \<Rightarrow> string" where
  "join_comma [] = []"
| "join_comma [s] = s"
| "join_comma (s # t # ss) = s @ CHR '','' # join_comma (t # ss)"

text \<open>
  The text of a JSON value. An array joins its elements with commas, \<^verbatim>\<open>null\<close> and
  \<^verbatim>\<open>undefined\<close> elements giving the empty string; an object has the text of
  \<^verbatim>\<open>Object.prototype.toString\<close>.
\<close>

fun js_text :: "jsval \<Rightarrow> string" where
  "js_text JUndefined = ''undefined''"
| "js_text JNull = ''null''"
| "js_text (JBool b) = (if b then ''true'' else ''false'')"
| "js_text (JNum n) = int_text n"
| "js_text (JStr s) = s"
| "js_text (JArr xs) =
     join_comma (map (\<lambda>v. if v = JUndefined \<or> v = JNull then [] else js_text v) xs)"
| "js_text (JObj kvs) = ''[object Object]''"

text \<open>
  An object parsed from JSON can have a key \<^verbatim>\<open>toString\<close> of its own. Its value is
  never a function, so converting the object to a string finds no method that gives a
  primitive and throws a TypeError; so does converting an array that holds such an
  object.
\<close>

fun toString_throws :: "jsval \<Rightarrow> bool" where
  "toString_throws (JArr xs) = list_ex toString_throws xs"
| "toString_throws (JObj kvs) = (''toString'' \<in> set (map fst kvs))"
| "toString_throws v = False"

text \<open>
  JavaScript's ToString, which \<^verbatim>\<open>RegExp.prototype.test\<close> and a template literal
  apply to their argument: the text, or \<open>None\<close> when it throws.
\<close>

definition js_toString :: "jsval \<Rightarrow> string option" where
  "js_toString v = (if toString_throws v then None else Some (js_text v))"

subsection \<open>Regular expressions\<close>

text \<open>
  A regular expression over code units, matched against a whole string by taking
  derivatives: \<open>deriv c r\<close> matches what \<open>r\<close> matches after a leading \<open>c\<close>.
\<close>

datatype rx =
    Fail
  | Eps
  | Cls "char \<Rightarrow> bool"
  | Alt rx rx
  | Cat rx rx
  | Star rx

definition OneOrMore :: "rx \<Rightarrow> rx" where
  "OneOrMore r = Cat r (Star r)"

fun nullable :: "rx \<Rightarrow> bool" where
  "nullable Fail = False"
| "nullable Eps = True"
| "nullable (Cls p) = False"
| "nullable (Alt r s) = (nullable r \<or> nullable s)"
| "nullable (Cat r s) = (nullable r \<and> nullable s)"
| "nullable (Star r) = True"

fun deriv :: "char \<Rightarrow> rx \<Rightarrow> rx" where
  "deriv c Fail = Fail"
| "deriv c Eps = Fail"
| "deriv c (Cls p) = (if p c then Eps else Fail)"
| "deriv c (Alt r s) = Alt (deriv c r) (deriv c s)"
| "deriv c (Cat r s) =
     (if nullable r then Alt (Cat (deriv c r) s) (deriv c s) else Cat (deriv c r) s)"
| "deriv c (Star r) = Cat (deriv c r) (Star r)"

fun rx_match :: "rx \<Rightarrow> string \<Rightarrow> bool" where
  "rx_match r [] = nullable r"
| "rx_match r (c # cs) = rx_match (deriv c r) cs"

text \<open>The strings an expression stands for, by which the matcher is checked below.\<close>

inductive_set star :: "string set \<Rightarrow> string set" for A :: "string set" where
  star_empty: "[] \<in> star A"
| star_step: "u \<in> A \<Longrightarrow> v \<in> star A \<Longrightarrow> u @ v \<in> star A"

fun lang :: "rx \<Rightarrow> string set" where
  "lang Fail = {}"
| "lang Eps = {[]}"
| "lang (Cls p) = {[c] | c. p c}"
| "lang (Alt r s) = lang r \<union> lang s"
| "lang (Cat r s) = {u @ v | u v. u \<in> lang r \<and> v \<in> lang s}"
| "lang (Star r) = star (lang r)"

text \<open>
  The class \<^verbatim>\<open>\s\<close> on code units below 256: tab, line feed, vertical tab, form
  feed, carriage return, space and no-break space.
\<close>

definition is_space :: "char \<Rightarrow> bool" where
  "is_space c = (of_char c \<in> {9, 10, 11, 12, 13, 32, 160 :: nat})"

text \<open>The class \<^verbatim>\<open>[^\s@]\<close>.\<close>

definition not_space_at :: "char \<Rightarrow> bool" where
  "not_space_at c = (\<not> is_space c \<and> c \<noteq> CHR ''@'')"

text \<open>
  \<^verbatim>\<open>/^[^\s@]+@[^\s@]+\.[^\s@]+$/\<close>. The anchors make \<^verbatim>\<open>test\<close> match the whole
  string (there is no \<^verbatim>\<open>m\<close> flag).
\<close>

definition emailRegex :: rx where
  "emailRegex =
     Cat (OneOrMore (Cls not_space_at))
       (Cat (Cls (\<lambda>c. c = CHR ''@''))
          (Cat (OneOrMore (Cls not_space_at))
             (Cat (Cls (\<lambda>c. c = CHR ''.''))
                (OneOrMore (Cls not_space_at)))))"

text \<open>\<^verbatim>\<open>isValidEmail\<close>: the result of the test, or \<open>None\<close> when the test throws.\<close>

definition isValidEmail :: "jsval \<Rightarrow> bool option" where
  "isValidEmail email = map_option (rx_match emailRegex) (js_toString email)"

text \<open>
  \<^verbatim>\<open>Array.prototype.includes\<close> on an array of strings: only an equal string is
  found.
\<close>

definition js_includes :: "string list \<Rightarrow> jsval \<Rightarrow> bool" where
  "js_includes xs v = (case v of JStr s \<Rightarrow> s \<in> set xs | _ \<Rightarrow> False)"

text \<open>
  \<^verbatim>\<open>s.replace("_", " ")\<close> with a string pattern: only the first occurrence is
  replaced.
\<close>

fun replace_first :: "char \<Rightarrow> char \<Rightarrow> string \<Rightarrow> string" where
  "replace_first a b [] = []"
| "replace_first a b (c # cs) = (if c = a then b # cs else c # replace_first a b cs)"

section \<open>The database\<close>

text \<open>
  Modelled from the spec: the schema of the two tables is not in the sources, which
  only hold the SQL statements. The spec's data model gives the columns: a student
  request has a generated id, name, email and request type as text and a ready flag;
  a notification has a student id, a sent flag, a timestamp and a request type.
\<close>

record student =
  s_id :: nat
  s_name :: string
  s_email :: string
  s_request_type :: string
  s_request_ready :: bool

record notification =
  n_student_id :: nat
  n_email_sent :: bool
  n_sent_at :: nat
  n_request_type :: string

text \<open>
  The tables in insertion order, and the counter from which the next student id is
  generated.
\<close>

record database =
  students :: "student list"
  notifications :: "notification list"
  next_id :: nat

text \<open>The seven statements the handlers execute, with their bound parameters.\<close>

datatype stmt =
    SelectByEmailType jsval jsval
  | InsertStudent jsval jsval jsval
  | SelectAll
  | SelectById jsval
  | UpdateReady jsval
  | InsertNotification jsval jsval
  | DeleteById jsval

datatype db_error = ConnectionLost | BadValue

text \<open>
  Modelled from the spec: how a bound parameter is read by the database is not in the
  sources. A parameter bound to a text column is stored and compared as its text; a
  parameter bound to an id is the row id it is equal to as a number, and no id
  otherwise (the conversions a database applies to other values are left out).
\<close>

definition sql_text :: "jsval \<Rightarrow> string" where
  "sql_text v = js_text v"

fun sql_id :: "jsval \<Rightarrow> nat option" where
  "sql_id (JNum n) = (if 0 \<le> n then Some (nat n) else None)"
| "sql_id v = None"

definition has_id :: "jsval \<Rightarrow> student \<Rightarrow> bool" where
  "has_id p r = (sql_id p = Some (s_id r))"

text \<open>The rows a \<^verbatim>\<open>WHERE email = ? AND request_type = ?\<close> clause selects.\<close>

definition pair_rows :: "jsval \<Rightarrow> jsval \<Rightarrow> student list \<Rightarrow> student list" where
  "pair_rows em rt rows =
     filter (\<lambda>r. s_email r = sql_text em \<and> s_request_type r = sql_text rt) rows"

text \<open>The rows a \<^verbatim>\<open>WHERE id = ?\<close> clause selects, and the others.\<close>

definition with_id :: "jsval \<Rightarrow> student list \<Rightarrow> student list" where
  "with_id p rows = filter (has_id p) rows"

definition without_id :: "jsval \<Rightarrow> student list \<Rightarrow> student list" where
  "without_id p rows = filter (\<lambda>r. \<not> has_id p r) rows"

text \<open>\<^verbatim>\<open>SET request_ready = TRUE WHERE id = ?\<close> on every row.\<close>

definition set_ready :: "jsval \<Rightarrow> student list \<Rightarrow> student list" where
  "set_ready p rows = map (\<lambda>r. if has_id p r then r\<lparr>s_request_ready := True\<rparr> else r) rows"

text \<open>
  Modelled from the spec: one statement on the tables, giving the selected rows (none
  for a statement that is not a SELECT) and the tables afterwards. A new student row
  takes the next id; an insert into the notifications table whose student id
  parameter is no id fails.
  \<^item> \<^verbatim>\<open>SELECT * FROM students WHERE email = ? AND request_type = ?\<close>
  \<^item> \<^verbatim>\<open>INSERT INTO students (name, email, request_type, request_ready) VALUES (?, ?, ?, FALSE)\<close>
  \<^item> \<^verbatim>\<open>SELECT * FROM students\<close>
  \<^item> \<^verbatim>\<open>SELECT ... FROM students WHERE id = ?\<close>
  \<^item> \<^verbatim>\<open>UPDATE students SET request_ready = TRUE WHERE id = ?\<close>
  \<^item> \<^verbatim>\<open>INSERT INTO notifications (student_id, email_sent, sent_at, request_type) VALUES (?, TRUE, NOW(), ?)\<close>
  \<^item> \<^verbatim>\<open>DELETE FROM students WHERE id = ?\<close>
\<close>

fun run_stmt :: "nat \<Rightarrow> stmt \<Rightarrow> database \<Rightarrow> db_error + (student list \<times> database)" where
  "run_stmt t (SelectByEmailType em rt) d =
     Inr (pair_rows em rt (students d), d)"
| "run_stmt t (InsertStudent nm em rt) d =
     Inr ([], d\<lparr>students := students d @
                  [\<lparr>s_id = next_id d, s_name = sql_text nm, s_email = sql_text em,
                    s_request_type = sql_text rt, s_request_ready = False\<rparr>],
                next_id := Suc (next_id d)\<rparr>)"
| "run_stmt t SelectAll d = Inr (students d, d)"
| "run_stmt t (SelectById p) d = Inr (with_id p (students d), d)"
| "run_stmt t (UpdateReady p) d =
     Inr ([], d\<lparr>students := set_ready p (students d)\<rparr>)"
| "run_stmt t (InsertNotification p rt) d =
     (case sql_id p of
        None \<Rightarrow> Inl BadValue
      | Some i \<Rightarrow>
          Inr ([], d\<lparr>notifications := notifications d @
                       [\<lparr>n_student_id = i, n_email_sent = True, n_sent_at = t,
                         n_request_type = sql_text rt\<rparr>]\<rparr>))"
| "run_stmt t (DeleteById p) d =
     Inr ([], d\<lparr>students := without_id p (students d)\<rparr>)"

section \<open>What is outside the handlers\<close>

text \<open>
  One request meets an environment: whether each of its database statements
  executes or throws (the connection is down, or \<^verbatim>\<open>db\<close> was never assigned),
  whether the mail transport accepts a message, and the database's clock.
\<close>

record env =
  db_ok :: "stmt \<Rightarrow> bool"
  mail_ok :: bool
  now :: nat

text \<open>What a handler did to the outside, in order.\<close>

datatype event =
    Exec stmt
  | Mail jsval string string bool

record world =
  db :: database
  log :: "event list"

text \<open>\<^verbatim>\<open>await db.execute(sql, params)\<close>: the rows, or the error thrown.\<close>

definition db_execute :: "env \<Rightarrow> stmt \<Rightarrow> world \<Rightarrow> (db_error + student list) \<times> world" where
  "db_execute e q w =
     (let w1 = w\<lparr>log := log w @ [Exec q]\<rparr> in
      if \<not> db_ok e q then (Inl ConnectionLost, w1)
      else case run_stmt (now e) q (db w) of
             Inl x \<Rightarrow> (Inl x, w1)
           | Inr (rows, d) \<Rightarrow> (Inr rows, w1\<lparr>db := d\<rparr>))"

text \<open>
  \<^verbatim>\<open>sendEmail\<close>: true when \<^verbatim>\<open>transporter.sendMail\<close> resolves, false when it
  rejects; the error is caught inside.
\<close>

definition sendEmail :: "env \<Rightarrow> jsval \<Rightarrow> string \<Rightarrow> string \<Rightarrow> world \<Rightarrow> bool \<times> world" where
  "sendEmail e to subject txt w =
     (mail_ok e, w\<lparr>log := log w @ [Mail to subject txt (mail_ok e)]\<rparr>)"

section \<open>The route handlers\<close>

datatype payload =
    ErrorBody string
  | MessageBody string
  | RowsBody "student list"

record response =
  status :: nat
  payload :: payload

text \<open>
  How a handler ends: it has sent a response, or an exception thrown outside its
  \<^verbatim>\<open>try\<close> block has left it and it has sent none.
\<close>

datatype outcome =
    Sent response
  | Uncaught

text \<open>
  \<^verbatim>\<open>res.status(n).json({ error: s })\<close>, \<^verbatim>\<open>res.status(n).json({ message: s })\<close>
  and \<^verbatim>\<open>res.json(rows)\<close>, whose status is 200 when none is set.
\<close>

definition json_error :: "nat \<Rightarrow> string \<Rightarrow> outcome" where
  "json_error n s = Sent \<lparr>status = n, payload = ErrorBody s\<rparr>"

definition json_message :: "nat \<Rightarrow> string \<Rightarrow> outcome" where
  "json_message n s = Sent \<lparr>status = n, payload = MessageBody s\<rparr>"

definition json_rows :: "nat \<Rightarrow> student list \<Rightarrow> outcome" where
  "json_rows n rows = Sent \<lparr>status = n, payload = RowsBody rows\<rparr>"

definition newline :: char where
  "newline = CHR 0x0A"

text \<open>
  \<^verbatim>\<open>app.post("/add-student")\<close>, in both servers. The three validation checks
  stand before the \<^verbatim>\<open>try\<close> block, so a throwing email test is not caught; the
  template literal of the confirmation email is evaluated inside it, before
  \<^verbatim>\<open>sendEmail\<close> is called.
\<close>

definition add_student :: "env \<Rightarrow> body \<Rightarrow> world \<Rightarrow> outcome \<times> world" where
  "add_student e b w =
     (let name = field b ''name''; email = field b ''email'';
          request_type = field b ''request_type'' in
      if \<not> truthy name \<or> \<not> truthy email \<or> \<not> truthy request_type then
        (json_error 400 ''Name, email, and request type are required'', w)
      else
        case isValidEmail email of
          None \<Rightarrow> (Uncaught, w)
        | Some valid \<Rightarrow>
            if \<not> valid then (json_error 400 ''Invalid email format'', w)
            else if \<not> js_includes [''transcript'', ''recommendation_letter''] request_type then
              (json_error 400 ''Invalid request type.'', w)
            else
              case db_execute e (SelectByEmailType email request_type) w of
                (Inl err, w1) \<Rightarrow> (json_error 500 ''Server error'', w1)
              | (Inr existing, w1) \<Rightarrow>
                  if length existing > 0 then
                    (json_error 400 ''Request already exists for this student.'', w1)
                  else
                    case db_execute e (InsertStudent name email request_type) w1 of
                      (Inl err, w2) \<Rightarrow> (json_error 500 ''Server error'', w2)
                    | (Inr ins, w2) \<Rightarrow>
                        (case (js_toString name, js_toString request_type) of
                           (Some name_text, Some type_text) \<Rightarrow>
                             (case sendEmail e email ''Application Received''
                                     (''Hello '' @ name_text @ '','' @ [newline, newline] @
                                      ''We have received your application for a '' @
                                      type_text @
                                      ''. You will be notified when it is ready.'') w2 of
                                (emailSent, w3) \<Rightarrow>
                                  if \<not> emailSent then
                                    (json_error 500 ''Email service unavailable.'', w3)
                                  else
                                    (json_message 201
                                       ''Student added and confirmation email sent!'', w3))
                         | _ \<Rightarrow> (json_error 500 ''Server error'', w2)))"

text \<open>\<^verbatim>\<open>app.get("/students")\<close>, in both servers.\<close>

definition get_students :: "env \<Rightarrow> world \<Rightarrow> outcome \<times> world" where
  "get_students e w =
     (case db_execute e SelectAll w of
        (Inl err, w1) \<Rightarrow> (json_error 500 ''Failed to fetch students'', w1)
      | (Inr results, w1) \<Rightarrow> (json_rows 200 results, w1))"

text \<open>\<^verbatim>\<open>app.post("/mark-ready")\<close>.\<close>

definition mark_ready :: "env \<Rightarrow> body \<Rightarrow> world \<Rightarrow> outcome \<times> world" where
  "mark_ready e b w =
     (let student_id = field b ''student_id'' in
      if \<not> truthy student_id then
        (json_error 400 ''Student ID is required'', w)
      else
        case db_execute e (SelectById student_id) w of
          (Inl err, w1) \<Rightarrow> (json_error 500 ''Server error'', w1)
        | (Inr [], w1) \<Rightarrow> (json_error 404 ''Student not found'', w1)
        | (Inr (row # rest), w1) \<Rightarrow>
            (case db_execute e (UpdateReady student_id) w1 of
               (Inl err, w2) \<Rightarrow> (json_error 500 ''Server error'', w2)
             | (Inr upd, w2) \<Rightarrow>
                 (case sendEmail e (JStr (s_email row))
                         (''Your '' @ replace_first CHR ''_'' CHR '' '' (s_request_type row) @
                          '' is Ready'')
                         (''Hello '' @ s_name row @ '','' @ [newline, newline] @ ''Your '' @
                          replace_first CHR ''_'' CHR '' '' (s_request_type row) @
                          '' is now ready for collection.'') w2 of
                    (emailSent, w3) \<Rightarrow>
                      if \<not> emailSent then
                        (json_error 500 ''Failed to send email.'', w3)
                      else
                        (case db_execute e
                                (InsertNotification student_id (JStr (s_request_type row))) w3 of
                           (Inl err, w4) \<Rightarrow>
                             (json_error 500 ''Server error'', w4)
                         | (Inr ins, w4) \<Rightarrow>
                             (json_message 200
                                ''Request marked as ready, email sent, and notification logged!'',
                              w4)))))"

text \<open>\<^verbatim>\<open>app.delete("/delete-student")\<close>. The line it writes to the console is left out.\<close>

definition delete_student :: "env \<Rightarrow> body \<Rightarrow> world \<Rightarrow> outcome \<times> world" where
  "delete_student e b w =
     (let student_id = field b ''student_id'' in
      if \<not> truthy student_id then
        (json_error 400 ''Student ID is required'', w)
      else
        case db_execute e (SelectById student_id) w of
          (Inl err, w1) \<Rightarrow>
            (json_error 500 ''Server error while deleting student'', w1)
        | (Inr [], w1) \<Rightarrow> (json_error 404 ''Student not found'', w1)
        | (Inr (row # rest), w1) \<Rightarrow>
            (case db_execute e (DeleteById student_id) w1 of
               (Inl err, w2) \<Rightarrow>
                 (json_error 500 ''Server error while deleting student'', w2)
             | (Inr del, w2) \<Rightarrow>
                 (json_message 200 ''Student deleted successfully!'', w2)))"

section \<open>Sequential executions\<close>

datatype request =
    PostAddStudent body
  | GetStudents
  | PostMarkReady body
  | DeleteStudent body

fun handle :: "env \<Rightarrow> request \<Rightarrow> world \<Rightarrow> outcome \<times> world" where
  "handle e (PostAddStudent b) w = add_student e b w"
| "handle e GetStudents w = get_students e w"
| "handle e (PostMarkReady b) w = mark_ready e b w"
| "handle e (DeleteStudent b) w = delete_student e b w"

text \<open>One request served on a database, with the events of that request alone.\<close>

definition serve :: "env \<Rightarrow> request \<Rightarrow> database \<Rightarrow> outcome \<times> world" where
  "serve e q d = handle e q \<lparr>db = d, log = []\<rparr>"

text \<open>Requests served one after the other, each in its own environment.\<close>

fun run :: "(env \<times> request) list \<Rightarrow> database \<Rightarrow> database" where
  "run [] d = d"
| "run ((e, q) # cs) d = run cs (db (snd (serve e q d)))"

section \<open>Notions the properties use\<close>

text \<open>The request validator: the three checks \<^verbatim>\<open>/add-student\<close> makes before it
  touches the database.\<close>

definition valid_request :: "body \<Rightarrow> bool" where
  "valid_request b =
     (truthy (field b ''name'') \<and> truthy (field b ''email'') \<and>
      truthy (field b ''request_type'') \<and> isValidEmail (field b ''email'') = Some True \<and>
      js_includes [''transcript'', ''recommendation_letter''] (field b ''request_type''))"

text \<open>A request's events hold an email send that failed, or one that succeeded.\<close>

definition mail_failed :: "event list \<Rightarrow> bool" where
  "mail_failed evs =
     list_ex (\<lambda>ev. case ev of Mail to subject txt sent \<Rightarrow> \<not> sent | Exec q \<Rightarrow> False) evs"

definition mail_succeeded :: "event list \<Rightarrow> bool" where
  "mail_succeeded evs =
     list_ex (\<lambda>ev. case ev of Mail to subject txt sent \<Rightarrow> sent | Exec q \<Rightarrow> False) evs"

text \<open>At most one row for each pair of email and request type.\<close>

definition uniq_pairs :: "student list \<Rightarrow> bool" where
  "uniq_pairs rows = distinct (map (\<lambda>r. (s_email r, s_request_type r)) rows)"

definition is_mark_ready :: "request \<Rightarrow> bool" where
  "is_mark_ready q = (case q of PostMarkReady b \<Rightarrow> True | _ \<Rightarrow> False)"

section \<open>Example environments, tables and requests\<close>

definition env_up :: env where
  "env_up = \<lparr>db_ok = (\<lambda>q. True), mail_ok = True, now = 0\<rparr>"

definition env_mail_down :: env where
  "env_mail_down = \<lparr>db_ok = (\<lambda>q. True), mail_ok = False, now = 0\<rparr>"

definition env_db_down :: env where
  "env_db_down = \<lparr>db_ok = (\<lambda>q. False), mail_ok = True, now = 0\<rparr>"

text \<open>Only the insert into the notifications table throws.\<close>

definition env_notify_down :: env where
  "env_notify_down =
     \<lparr>db_ok = (\<lambda>q. case q of InsertNotification p rt \<Rightarrow> False | _ \<Rightarrow> True),
      mail_ok = True, now = 0\<rparr>"

definition empty_db :: database where
  "empty_db = \<lparr>students = [], notifications = [], next_id = 1\<rparr>"

definition alice_body :: body where
  "alice_body = [''name'' \<mapsto> JStr ''Alice'', ''email'' \<mapsto> JStr ''a@b.com'',
                 ''request_type'' \<mapsto> JStr ''transcript'']"

definition alice_row :: student where
  "alice_row = \<lparr>s_id = 1, s_name = ''Alice'', s_email = ''a@b.com'',
                 s_request_type = ''transcript'', s_request_ready = False\<rparr>"

definition alice_db :: database where
  "alice_db = \<lparr>students = [alice_row], notifications = [], next_id = 2\<rparr>"

definition alice_note :: notification where
  "alice_note = \<lparr>n_student_id = 1, n_email_sent = True, n_sent_at = 0,
                  n_request_type = ''transcript''\<rparr>"

definition alice_ready_db :: database where
  "alice_ready_db =
     \<lparr>students = [alice_row\<lparr>s_request_ready := True\<rparr>], notifications = [alice_note],
      next_id = 2\<rparr>"

definition id_body :: "int \<Rightarrow> body" where
  "id_body i = [''student_id'' \<mapsto> JNum i]"

definition bob_row :: student where
  "bob_row = \<lparr>s_id = 2, s_name = ''Bob'', s_email = ''bob@c.org'',
               s_request_type = ''recommendation_letter'', s_request_ready = False\<rparr>"

definition two_db :: database where
  "two_db = \<lparr>students = [alice_row, bob_row], notifications = [], next_id = 3\<rparr>"

text \<open>
  Alice's request without a name, with an empty email, with an email that has no
  \<^verbatim>\<open>@\<close>, and for a diploma; a body with an empty name and the student id 0; a
  request for a diploma with an empty name.
\<close>

definition nameless_body :: body where
  "nameless_body = [''email'' \<mapsto> JStr ''a@b.com'', ''request_type'' \<mapsto> JStr ''transcript'']"

definition blank_email_body :: body where
  "blank_email_body = [''name'' \<mapsto> JStr ''Alice'', ''email'' \<mapsto> JStr [],
                       ''request_type'' \<mapsto> JStr ''transcript'']"

definition bad_email_body :: body where
  "bad_email_body = [''name'' \<mapsto> JStr ''Alice'', ''email'' \<mapsto> JStr ''a.b.com'',
                     ''request_type'' \<mapsto> JStr ''transcript'']"

definition diploma_body :: body where
  "diploma_body = [''name'' \<mapsto> JStr ''Alice'', ''email'' \<mapsto> JStr ''a@b.com'',
                   ''request_type'' \<mapsto> JStr ''diploma'']"

definition blank_name_zero_id_body :: body where
  "blank_name_zero_id_body = [''name'' \<mapsto> JStr [], ''student_id'' \<mapsto> JNum 0]"

text \<open>Alice's request with an object that has a \<^verbatim>\<open>toString\<close> key as email.\<close>

definition tostring_email_body :: body where
  "tostring_email_body = [''name'' \<mapsto> JStr ''Alice'',
                          ''email'' \<mapsto> JObj [(''toString'', JNum 1)],
                          ''request_type'' \<mapsto> JStr ''transcript'']"

definition blank_name_diploma_body :: body where
  "blank_name_diploma_body = [''name'' \<mapsto> JStr [], ''email'' \<mapsto> JStr ''a@b.com'',
                              ''request_type'' \<mapsto> JStr ''diploma'']"

section \<open>Evaluating the model\<close>

lemmas handler_defs =
  serve_def add_student_def get_students_def mark_ready_def delete_student_def
  db_execute_def sendEmail_def field_def Let_def json_error_def json_message_def json_rows_def

lemmas value_defs =
  isValidEmail_def js_toString_def emailRegex_def OneOrMore_def not_space_at_def is_space_def
  js_includes_def sql_text_def pair_rows_def with_id_def without_id_def set_ready_def has_id_def
  valid_request_def mail_failed_def mail_succeeded_def uniq_pairs_def is_mark_ready_def

lemmas example_defs =
  env_up_def env_mail_down_def env_db_down_def env_notify_down_def empty_db_def alice_body_def
  alice_row_def alice_db_def alice_note_def alice_ready_db_def id_body_def bob_row_def
  two_db_def nameless_body_def blank_email_body_def bad_email_body_def diploma_body_def
  blank_name_diploma_body_def blank_name_zero_id_body_def tostring_email_body_def

section \<open>The email pattern\<close>

text \<open>The matcher accepts exactly the strings its expression stands for.\<close>

lemma nullable_lang: "nullable r \<longleftrightarrow> [] \<in> lang r"
  by (induction r) (auto intro: star.star_empty)

lemma star_cons:
  "c # w \<in> star A \<longleftrightarrow> (\<exists>u v. w = u @ v \<and> c # u \<in> A \<and> v \<in> star A)"
proof
  assume "c # w \<in> star A"
  then show "\<exists>u v. w = u @ v \<and> c # u \<in> A \<and> v \<in> star A"
  proof (induction "c # w" arbitrary: w rule: star.induct)
    case (star_step u v)
    show ?case
    proof (cases u)
      case Nil
      with star_step show ?thesis by simp
    next
      case (Cons a u')
      with star_step.hyps(1,2,4) show ?thesis by auto
    qed
  qed
next
  assume "\<exists>u v. w = u @ v \<and> c # u \<in> A \<and> v \<in> star A"
  then obtain u v where "w = u @ v" "c # u \<in> A" "v \<in> star A" by blast
  then show "c # w \<in> star A"
    using star.star_step [of "c # u" A v] by simp
qed

lemma lang_deriv: "lang (deriv c r) = {w. c # w \<in> lang r}"
proof (induction r)
  case (Cat r s)
  show ?case
  proof (cases "nullable r")
    case True
    then have "[] \<in> lang r" by (simp add: nullable_lang)
    with Cat True show ?thesis
      by (auto simp: Cons_eq_append_conv)
  next
    case False
    then have "[] \<notin> lang r" by (simp add: nullable_lang)
    with Cat False show ?thesis
      by (auto simp: Cons_eq_append_conv)
  qed
next
  case (Star r)
  then show ?case by (auto simp: star_cons)
qed auto

lemma rx_match_lang: "rx_match r w \<longleftrightarrow> w \<in> lang r"
  by (induction w arbitrary: r) (simp_all add: nullable_lang lang_deriv)

text \<open>
  So the email pattern accepts the strings made of a local part, \<^verbatim>\<open>@\<close>, a domain,
  a dot and a last label, each of the three non-empty and free of white space and
  \<^verbatim>\<open>@\<close> (any of them may hold dots).
\<close>

lemma star_class: "star {[c] | c. p c} = {w. \<forall>c\<in>set w. p c}"
proof (intro set_eqI iffI)
  fix w assume "w \<in> star {[c] | c. p c}"
  then show "w \<in> {w. \<forall>c\<in>set w. p c}"
    by (induction rule: star.induct) auto
next
  fix w assume "w \<in> {w. \<forall>c\<in>set w. p c}"
  then have "\<forall>c\<in>set w. p c" by simp
  then show "w \<in> star {[c] | c. p c}"
  proof (induction w)
    case Nil
    show ?case by (rule star.star_empty)
  next
    case (Cons a w)
    then have "[a] \<in> {[c] | c. p c}" "w \<in> star {[c] | c. p c}" by auto
    then have "[a] @ w \<in> star {[c] | c. p c}" by (rule star.star_step)
    then show ?case by simp
  qed
qed

lemma lang_OneOrMore_class:
  "lang (OneOrMore (Cls p)) = {w. w \<noteq> [] \<and> (\<forall>c\<in>set w. p c)}"
proof (intro set_eqI iffI)
  fix w assume "w \<in> lang (OneOrMore (Cls p))"
  then show "w \<in> {w. w \<noteq> [] \<and> (\<forall>c\<in>set w. p c)}"
    by (auto simp: OneOrMore_def star_class)
next
  fix w assume "w \<in> {w. w \<noteq> [] \<and> (\<forall>c\<in>set w. p c)}"
  then obtain a v where w: "w = [a] @ v" and "p a" "\<forall>x\<in>set v. p x"
    by (cases w) auto
  then have "[a] \<in> lang (Cls p)" and "v \<in> lang (Star (Cls p))"
    by (simp_all add: star_class)
  then show "w \<in> lang (OneOrMore (Cls p))"
    unfolding OneOrMore_def lang.simps w by blast
qed

lemma emailRegex_meaning:
  "rx_match emailRegex s \<longleftrightarrow>
     (\<exists>u v w. s = u @ ''@'' @ v @ ''.'' @ w \<and> u \<noteq> [] \<and> v \<noteq> [] \<and> w \<noteq> [] \<and>
              (\<forall>c\<in>set (u @ v @ w). not_space_at c))"
proof
  assume "rx_match emailRegex s"
  then show "\<exists>u v w. s = u @ ''@'' @ v @ ''.'' @ w \<and> u \<noteq> [] \<and> v \<noteq> [] \<and> w \<noteq> [] \<and>
              (\<forall>c\<in>set (u @ v @ w). not_space_at c)"
    by (force simp: rx_match_lang emailRegex_def lang_OneOrMore_class)
next
  assume "\<exists>u v w. s = u @ ''@'' @ v @ ''.'' @ w \<and> u \<noteq> [] \<and> v \<noteq> [] \<and> w \<noteq> [] \<and>
              (\<forall>c\<in>set (u @ v @ w). not_space_at c)"
  then obtain u v w where s: "s = u @ ''@'' @ v @ ''.'' @ w"
    and ne: "u \<noteq> []" "v \<noteq> []" "w \<noteq> []"
    and cls: "\<forall>c\<in>set (u @ v @ w). not_space_at c"
    by blast
  have u: "u \<in> lang (OneOrMore (Cls not_space_at))"
    and v: "v \<in> lang (OneOrMore (Cls not_space_at))"
    and w: "w \<in> lang (OneOrMore (Cls not_space_at))"
    using ne cls by (simp_all add: lang_OneOrMore_class)
  have "''.'' @ w \<in> lang (Cat (Cls (\<lambda>c. c = CHR ''.'')) (OneOrMore (Cls not_space_at)))"
    using w by force
  with v have "v @ ''.'' @ w \<in>
      lang (Cat (OneOrMore (Cls not_space_at))
             (Cat (Cls (\<lambda>c. c = CHR ''.'')) (OneOrMore (Cls not_space_at))))"
    unfolding lang.simps(5) [of "OneOrMore (Cls not_space_at)"] by blast
  then have "''@'' @ v @ ''.'' @ w \<in>
      lang (Cat (Cls (\<lambda>c. c = CHR ''@''))
             (Cat (OneOrMore (Cls not_space_at))
                (Cat (Cls (\<lambda>c. c = CHR ''.'')) (OneOrMore (Cls not_space_at)))))"
    unfolding lang.simps(5) [of "Cls (\<lambda>c. c = CHR ''@'')"] by force
  with u have "s \<in> lang emailRegex"
    unfolding emailRegex_def s lang.simps(5) [of "OneOrMore (Cls not_space_at)"] by blast
  then show "rx_match emailRegex s" by (simp add: rx_match_lang)
qed

section \<open>Validation\<close>

text \<open>
  Claim C7. For every \<^verbatim>\<open>/add-student\<close> request body in which name, email or
  request_type is missing, the response is 400 with the error
  "Name, email, and request type are required", and no database or email operation is
  performed: the handler returns the world it was given, tables and event log alike.
\<close>

theorem add_student_missing_field:
  assumes "b ''name'' = None \<or> b ''email'' = None \<or> b ''request_type'' = None"
  shows "add_student e b w =
           (json_error 400 ''Name, email, and request type are required'', w)"
  using assms by (auto simp: add_student_def field_def Let_def)

text \<open>A body with an email and a request type but no name, while the database is up.\<close>

theorem add_student_missing_field_witness:
  "nameless_body ''name'' = None \<and>
   add_student env_up nameless_body \<lparr>db = alice_db, log = []\<rparr> =
     (json_error 400 ''Name, email, and request type are required'',
      \<lparr>db = alice_db, log = []\<rparr>)"
  using add_student_missing_field [of nameless_body env_up "\<lparr>db = alice_db, log = []\<rparr>"]
  by (simp add: nameless_body_def)

text \<open>
  Claim C9. The presence checks test falsiness, not key presence. An
  \<^verbatim>\<open>/add-student\<close> request in which name, email or request_type is present but the
  empty string gets the 400 missing-field error; a \<^verbatim>\<open>/mark-ready\<close> or
  \<^verbatim>\<open>/delete-student\<close> request in which student_id is present but 0 or the empty
  string gets 400 "Student ID is required", not 404. In each case nothing else happens.
\<close>

theorem falsy_fields_rejected:
  "(b ''name'' = Some (JStr []) \<or> b ''email'' = Some (JStr []) \<or>
    b ''request_type'' = Some (JStr []) \<longrightarrow>
      add_student e b w =
        (json_error 400 ''Name, email, and request type are required'', w)) \<and>
   (b ''student_id'' = Some (JNum 0) \<or> b ''student_id'' = Some (JStr []) \<longrightarrow>
      mark_ready e b w = (json_error 400 ''Student ID is required'', w) \<and>
      delete_student e b w = (json_error 400 ''Student ID is required'', w) \<and>
      json_error 400 ''Student ID is required'' \<noteq> json_error 404 ''Student not found'')"
  by (auto simp: add_student_def mark_ready_def delete_student_def field_def Let_def
      json_error_def)

text \<open>One body with an empty name and the student id 0, sent to all three routes.\<close>

theorem falsy_fields_rejected_witness:
  "blank_name_zero_id_body ''name'' = Some (JStr []) \<and>
   blank_name_zero_id_body ''student_id'' = Some (JNum 0) \<and>
   add_student env_up blank_name_zero_id_body \<lparr>db = alice_db, log = []\<rparr> =
     (json_error 400 ''Name, email, and request type are required'',
      \<lparr>db = alice_db, log = []\<rparr>) \<and>
   mark_ready env_up blank_name_zero_id_body \<lparr>db = alice_db, log = []\<rparr> =
     (json_error 400 ''Student ID is required'', \<lparr>db = alice_db, log = []\<rparr>) \<and>
   delete_student env_up blank_name_zero_id_body \<lparr>db = alice_db, log = []\<rparr> =
     (json_error 400 ''Student ID is required'', \<lparr>db = alice_db, log = []\<rparr>)"
  using falsy_fields_rejected
    [of blank_name_zero_id_body env_up "\<lparr>db = alice_db, log = []\<rparr>"]
  by (simp add: blank_name_zero_id_body_def)




text \<open>
  The email test stands outside the \<^verbatim>\<open>try\<close> block: when it throws, the handler
  sends no response and touches nothing.
\<close>

lemma add_student_email_test_throws:
  assumes "truthy (field b ''name'')" and "truthy (field b ''request_type'')"
    and "toString_throws (field b ''email'')"
  shows "add_student e b w = (Uncaught, w)"
proof -
  have "truthy (field b ''email'')"
    using assms(3) by (cases "field b ''email''") auto
  with assms show ?thesis
    by (simp add: add_student_def Let_def isValidEmail_def js_toString_def)
qed

section \<open>Registration\<close>

text \<open>
  Claim C3. For every register call that passes validation and has no existing row
  for its email and request type, if the confirmation email send fails, the response
  is 500 "Email service unavailable." but the newly inserted row, with
  \<open>request_ready\<close> false, remains in the students table. That the send fails is read
  off the request's events: the handler called \<^verbatim>\<open>sendEmail\<close> and got false.
\<close>

theorem register_email_failure:
  assumes "valid_request b"
    and "pair_rows (field b ''email'') (field b ''request_type'') (students d) = []"
    and "mail_failed (log (snd (serve e (PostAddStudent b) d)))"
  shows "fst (serve e (PostAddStudent b) d) = json_error 500 ''Email service unavailable.'' \<and>
         students (db (snd (serve e (PostAddStudent b) d))) =
           students d @ [\<lparr>s_id = next_id d, s_name = sql_text (field b ''name''),
                          s_email = sql_text (field b ''email''),
                          s_request_type = sql_text (field b ''request_type''),
                          s_request_ready = False\<rparr>]"
  using assms
  by (auto simp: valid_request_def pair_rows_def serve_def add_student_def Let_def
      db_execute_def sendEmail_def mail_failed_def split: if_splits option.splits)

text \<open>Alice registers on the empty table while the mail transport is down.\<close>

theorem register_email_failure_witness:
  "valid_request alice_body \<and>
   pair_rows (field alice_body ''email'') (field alice_body ''request_type'')
     (students empty_db) = [] \<and>
   mail_failed (log (snd (serve env_mail_down (PostAddStudent alice_body) empty_db))) \<and>
   fst (serve env_mail_down (PostAddStudent alice_body) empty_db) =
     json_error 500 ''Email service unavailable.'' \<and>
   students (db (snd (serve env_mail_down (PostAddStudent alice_body) empty_db))) = [alice_row]"
proof -
  have v: "valid_request alice_body"
    by (simp add: value_defs example_defs field_def)
  have n: "pair_rows (field alice_body ''email'') (field alice_body ''request_type'')
             (students empty_db) = []"
    by (simp add: pair_rows_def empty_db_def)
  have m: "mail_failed (log (snd (serve env_mail_down (PostAddStudent alice_body) empty_db)))"
    by (simp add: handler_defs value_defs example_defs)
  from register_email_failure [OF v n m] v n m show ?thesis
    by (simp add: sql_text_def field_def example_defs)
qed

text \<open>
  When does the send fail? Exactly when the request is valid and new, both database
  statements execute, the name has a text for the message, and the mail transport
  refuses it.
\<close>

lemma register_email_failure_iff:
  "mail_failed (log (snd (serve e (PostAddStudent b) d))) \<longleftrightarrow>
     valid_request b \<and>
     pair_rows (field b ''email'') (field b ''request_type'') (students d) = [] \<and>
     db_ok e (SelectByEmailType (field b ''email'') (field b ''request_type'')) \<and>
     db_ok e (InsertStudent (field b ''name'') (field b ''email'') (field b ''request_type'')) \<and>
     \<not> toString_throws (field b ''name'') \<and> \<not> mail_ok e"
  by (auto simp: valid_request_def serve_def add_student_def Let_def db_execute_def
      sendEmail_def mail_failed_def js_toString_def js_includes_def
      split: option.splits jsval.splits)

text \<open>
  Claim C4, as the code has it. For every register call that passes validation, whose
  SELECT executes without throwing, and whose email and request type already have a
  row in the students table, the response is 400 "Request already exists for this
  student." and the tables are left unchanged: the SELECT is the request's only event,
  so no row is inserted and no email is sent.
\<close>

theorem register_duplicate:
  assumes "valid_request b"
    and "db_ok e (SelectByEmailType (field b ''email'') (field b ''request_type''))"
    and "pair_rows (field b ''email'') (field b ''request_type'') (students d) \<noteq> []"
  shows "serve e (PostAddStudent b) d =
           (json_error 400 ''Request already exists for this student.'',
            \<lparr>db = d,
             log = [Exec (SelectByEmailType (field b ''email'') (field b ''request_type''))]\<rparr>)"
  using assms
  by (auto simp: valid_request_def serve_def add_student_def Let_def db_execute_def)

text \<open>Alice registers again on the table that holds her row.\<close>

theorem register_duplicate_witness:
  "valid_request alice_body \<and>
   db_ok env_up
     (SelectByEmailType (field alice_body ''email'') (field alice_body ''request_type'')) \<and>
   pair_rows (field alice_body ''email'') (field alice_body ''request_type'')
     (students alice_db) = [alice_row] \<and>
   serve env_up (PostAddStudent alice_body) alice_db =
     (json_error 400 ''Request already exists for this student.'',
      \<lparr>db = alice_db,
       log = [Exec (SelectByEmailType (JStr ''a@b.com'') (JStr ''transcript''))]\<rparr>)"
proof -
  have v: "valid_request alice_body"
    by (simp add: value_defs example_defs field_def)
  have u: "db_ok env_up
             (SelectByEmailType (field alice_body ''email'') (field alice_body ''request_type''))"
    by (simp add: env_up_def)
  have r: "pair_rows (field alice_body ''email'') (field alice_body ''request_type'')
             (students alice_db) = [alice_row]"
    by (simp add: value_defs example_defs field_def)
  then have n: "pair_rows (field alice_body ''email'') (field alice_body ''request_type'')
                  (students alice_db) \<noteq> []"
    by simp
  from register_duplicate [OF v u n] v u r show ?thesis
    by (simp add: field_def alice_body_def)
qed

text \<open>
  Claim C4 as stated fails twice on the table that holds Alice's row. A request with
  her email and request type but no name is answered with the missing-field error,
  and her full request, when the SELECT throws, is answered with 500 "Server error".
\<close>

theorem register_duplicate_claim_counterexample:
  "pair_rows (field nameless_body ''email'') (field nameless_body ''request_type'')
     (students alice_db) = [alice_row] \<and>
   serve env_up (PostAddStudent nameless_body) alice_db =
     (json_error 400 ''Name, email, and request type are required'',
      \<lparr>db = alice_db, log = []\<rparr>) \<and>
   json_error 400 ''Name, email, and request type are required'' \<noteq>
     json_error 400 ''Request already exists for this student.'' \<and>
   pair_rows (field alice_body ''email'') (field alice_body ''request_type'')
     (students alice_db) = [alice_row] \<and>
   serve env_db_down (PostAddStudent alice_body) alice_db =
     (json_error 500 ''Server error'',
      \<lparr>db = alice_db,
       log = [Exec (SelectByEmailType (JStr ''a@b.com'') (JStr ''transcript''))]\<rparr>) \<and>
   json_error 500 ''Server error'' \<noteq> json_error 400 ''Request already exists for this student.''"
  by (simp add: handler_defs value_defs example_defs)

section \<open>The uniqueness invariant\<close>

lemma uniq_pairs_set_ready: "uniq_pairs (set_ready p rows) = uniq_pairs rows"
proof -
  have "map (\<lambda>r. (s_email r, s_request_type r)) (set_ready p rows) =
        map (\<lambda>r. (s_email r, s_request_type r)) rows"
    by (simp add: set_ready_def)
  then show ?thesis by (simp add: uniq_pairs_def)
qed

lemma uniq_pairs_without_id: "uniq_pairs rows \<Longrightarrow> uniq_pairs (without_id p rows)"
  by (simp add: uniq_pairs_def without_id_def distinct_map_filter)

lemma uniq_pairs_append:
  assumes "uniq_pairs rows" and "pair_rows em rt rows = []"
    and "s_email r = sql_text em" and "s_request_type r = sql_text rt"
  shows "uniq_pairs (rows @ [r])"
proof -
  have "\<forall>x\<in>set rows. \<not> (s_email x = sql_text em \<and> s_request_type x = sql_text rt)"
    using assms(2) by (simp add: pair_rows_def filter_empty_conv)
  then have "(s_email r, s_request_type r) \<notin> set (map (\<lambda>r. (s_email r, s_request_type r)) rows)"
    using assms(3,4) by auto
  with assms(1) show ?thesis by (simp add: uniq_pairs_def)
qed

text \<open>What each handler can do to the students table, whatever the environment.\<close>

lemma add_student_students:
  "students (db (snd (add_student e b w))) = students (db w) \<or>
   (pair_rows (field b ''email'') (field b ''request_type'') (students (db w)) = [] \<and>
    students (db (snd (add_student e b w))) =
      students (db w) @ [\<lparr>s_id = next_id (db w), s_name = sql_text (field b ''name''),
                          s_email = sql_text (field b ''email''),
                          s_request_type = sql_text (field b ''request_type''),
                          s_request_ready = False\<rparr>])"
  by (simp add: add_student_def Let_def db_execute_def sendEmail_def split: option.split)

lemma get_students_db: "db (snd (get_students e w)) = db w"
  by (simp add: get_students_def db_execute_def Let_def)

lemma mark_ready_students:
  "students (db (snd (mark_ready e b w))) = students (db w) \<or>
   students (db (snd (mark_ready e b w))) = set_ready (field b ''student_id'') (students (db w))"
  by (simp add: mark_ready_def Let_def db_execute_def sendEmail_def
      split: list.split option.split)

lemma delete_student_students:
  "students (db (snd (delete_student e b w))) = students (db w) \<or>
   students (db (snd (delete_student e b w))) =
     without_id (field b ''student_id'') (students (db w))"
  by (simp add: delete_student_def Let_def db_execute_def split: list.split)

lemma serve_uniq_pairs:
  assumes "uniq_pairs (students d)"
  shows "uniq_pairs (students (db (snd (serve e q d))))"
proof (cases q)
  case (PostAddStudent b)
  with assms add_student_students [of e b "\<lparr>db = d, log = []\<rparr>"] show ?thesis
    by (auto simp: serve_def
        uniq_pairs_append [where em = "field b ''email''" and rt = "field b ''request_type''"])
next
  case GetStudents
  with assms show ?thesis by (simp add: serve_def get_students_db)
next
  case (PostMarkReady b)
  with assms mark_ready_students [of e b "\<lparr>db = d, log = []\<rparr>"] show ?thesis
    by (auto simp: serve_def uniq_pairs_set_ready)
next
  case (DeleteStudent b)
  with assms delete_student_students [of e b "\<lparr>db = d, log = []\<rparr>"] show ?thesis
    by (auto simp: serve_def uniq_pairs_without_id)
qed

text \<open>
  Claim C2. Starting from any state in which the students table has at most one row
  for each pair of email and request type, after any sequence of register, list,
  mark-ready and delete requests served one after the other, in whatever environment
  each of them meets, the table still has at most one row for each pair.
\<close>

theorem uniq_pairs_invariant:
  "uniq_pairs (students d) \<Longrightarrow> uniq_pairs (students (run cs d))"
proof (induction cs arbitrary: d)
  case Nil
  then show ?case by simp
next
  case (Cons c cs)
  obtain e q where c: "c = (e, q)" by (cases c)
  from Cons.prems have "uniq_pairs (students (db (snd (serve e q d))))"
    by (rule serve_uniq_pairs)
  then have "uniq_pairs (students (run cs (db (snd (serve e q d)))))"
    by (rule Cons.IH)
  with c show ?case by simp
qed

text \<open>
  Alice registers twice on the empty table and is then marked ready: the second
  registration is refused and the table ends with her one row.
\<close>

theorem uniq_pairs_invariant_witness:
  "uniq_pairs (students empty_db) \<and>
   uniq_pairs (students (run [(env_up, PostAddStudent alice_body),
                              (env_up, PostAddStudent alice_body),
                              (env_up, PostMarkReady (id_body 1))] empty_db)) \<and>
   run [(env_up, PostAddStudent alice_body), (env_up, PostAddStudent alice_body),
        (env_up, PostMarkReady (id_body 1))] empty_db = alice_ready_db"
proof -
  have h: "uniq_pairs (students empty_db)"
    by (simp add: uniq_pairs_def empty_db_def)
  have r: "run [(env_up, PostAddStudent alice_body), (env_up, PostAddStudent alice_body),
                (env_up, PostMarkReady (id_body 1))] empty_db = alice_ready_db"
    by (simp add: handler_defs value_defs example_defs)
  from h r uniq_pairs_invariant [OF h] show ?thesis by blast
qed

section \<open>Notification rows\<close>

lemma add_student_notifications:
  "notifications (db (snd (add_student e b w))) = notifications (db w)"
  by (simp add: add_student_def Let_def db_execute_def sendEmail_def split: option.split)

lemma delete_student_notifications:
  "notifications (db (snd (delete_student e b w))) = notifications (db w)"
  by (simp add: delete_student_def Let_def db_execute_def split: list.split)

lemma mark_ready_notifications:
  "notifications (db (snd (mark_ready e b w))) = notifications (db w) \<or>
   (mail_succeeded (drop (length (log w)) (log (snd (mark_ready e b w)))) \<and>
    (\<exists>n. notifications (db (snd (mark_ready e b w))) = notifications (db w) @ [n]))"
  by (simp add: mark_ready_def Let_def db_execute_def sendEmail_def mail_succeeded_def
      split: list.split option.split)

lemma serve_notifications:
  "notifications (db (snd (serve e q d))) = notifications d \<or>
   (is_mark_ready q \<and> mail_succeeded (log (snd (serve e q d))) \<and>
    (\<exists>n. notifications (db (snd (serve e q d))) = notifications d @ [n]))"
proof (cases q)
  case (PostAddStudent b)
  then show ?thesis by (simp add: serve_def add_student_notifications)
next
  case GetStudents
  then show ?thesis by (simp add: serve_def get_students_db)
next
  case (PostMarkReady b)
  with mark_ready_notifications [of e b "\<lparr>db = d, log = []\<rparr>"] show ?thesis
    by (simp add: serve_def is_mark_ready_def)
next
  case (DeleteStudent b)
  then show ?thesis by (simp add: serve_def delete_student_notifications)
qed

lemma run_append: "run (cs1 @ cs2) d = run cs2 (run cs1 d)"
  by (induction cs1 arbitrary: d) auto

lemma run_notifications_prefix: "prefix (notifications d) (notifications (run cs d))"
proof (induction cs arbitrary: d)
  case Nil
  then show ?case by simp
next
  case (Cons c cs)
  obtain e q where c: "c = (e, q)" by (cases c)
  have "prefix (notifications d) (notifications (db (snd (serve e q d))))"
    using serve_notifications [of e q d] by auto
  also have "prefix \<dots> (notifications (run cs (db (snd (serve e q d)))))"
    by (rule Cons.IH)
  finally show ?case using c by simp
qed

text \<open>
  Claim C6. In every sequential execution of register, list, mark-ready and delete
  requests, a notification row, once created, is never modified or removed by a later
  request: the notifications after any part \<open>cs1\<close> of an execution are still there,
  in place and unchanged, at the start of the table after the rest \<open>cs2\<close>. And a
  notification row is created only by a mark-ready call whose email send succeeded: a
  request that changes the table is a mark-ready, its events hold a successful send,
  and all it did was append one row.
\<close>

theorem notifications_append_only:
  "prefix (notifications (run cs1 d)) (notifications (run (cs1 @ cs2) d)) \<and>
   (notifications (db (snd (serve e q d))) \<noteq> notifications d \<longrightarrow>
      is_mark_ready q \<and> mail_succeeded (log (snd (serve e q d))) \<and>
      butlast (notifications (db (snd (serve e q d)))) = notifications d)"
proof
  show "prefix (notifications (run cs1 d)) (notifications (run (cs1 @ cs2) d))"
    by (simp add: run_append run_notifications_prefix)
  show "notifications (db (snd (serve e q d))) \<noteq> notifications d \<longrightarrow>
      is_mark_ready q \<and> mail_succeeded (log (snd (serve e q d))) \<and>
      butlast (notifications (db (snd (serve e q d)))) = notifications d"
    using serve_notifications [of e q d] by auto
qed

text \<open>
  Alice is marked ready, which writes her notification; deleting her afterwards
  leaves it where it was.
\<close>

theorem notifications_append_only_witness:
  "notifications (db (snd (serve env_up (PostMarkReady (id_body 1)) alice_db))) \<noteq>
     notifications alice_db \<and>
   is_mark_ready (PostMarkReady (id_body 1)) \<and>
   mail_succeeded (log (snd (serve env_up (PostMarkReady (id_body 1)) alice_db))) \<and>
   notifications (run [(env_up, PostMarkReady (id_body 1))] alice_db) = [alice_note] \<and>
   prefix [alice_note]
     (notifications (run ([(env_up, PostMarkReady (id_body 1))] @
                          [(env_up, DeleteStudent (id_body 1))]) alice_db))"
proof -
  have c: "notifications (db (snd (serve env_up (PostMarkReady (id_body 1)) alice_db))) \<noteq>
             notifications alice_db"
    by (simp add: handler_defs value_defs example_defs)
  have r: "notifications (run [(env_up, PostMarkReady (id_body 1))] alice_db) = [alice_note]"
    by (simp add: handler_defs value_defs example_defs)
  from notifications_append_only
    [of "[(env_up, PostMarkReady (id_body 1))]" alice_db "[(env_up, DeleteStudent (id_body 1))]"
        env_up "PostMarkReady (id_body 1)"] c r
  show ?thesis by simp
qed

section \<open>Marking a request ready\<close>

lemma with_id_ConsD: "with_id p rows = row # rest \<Longrightarrow> sql_id p = Some (s_id row)"
  by (metis Cons_eq_filterD has_id_def with_id_def)

text \<open>
  Claim C1, as the code has it. For every mark-ready call whose student_id is truthy
  and whose database statements all execute without throwing: if no student row has
  the given id, the response is 404 "Student not found" and the tables are unchanged;
  if rows have it, \<open>row\<close> being the first, \<open>request_ready\<close> becomes true on each of
  them, and a notification row (with that student id, \<open>email_sent\<close> true and the
  row's request type) is appended if and only if the email send succeeds. On email
  failure the response is 500 "Failed to send email.", the flag stays true and no
  notification row is written.
\<close>

theorem mark_ready_behaviour:
  assumes "truthy (field b ''student_id'')" and "\<forall>q. db_ok e q"
  shows "(with_id (field b ''student_id'') (students d) = [] \<longrightarrow>
            serve e (PostMarkReady b) d =
              (json_error 404 ''Student not found'',
               \<lparr>db = d, log = [Exec (SelectById (field b ''student_id''))]\<rparr>)) \<and>
         (with_id (field b ''student_id'') (students d) = row # rest \<longrightarrow>
            students (db (snd (serve e (PostMarkReady b) d))) =
              set_ready (field b ''student_id'') (students d) \<and>
            (mail_ok e \<longrightarrow>
               mail_succeeded (log (snd (serve e (PostMarkReady b) d))) \<and>
               fst (serve e (PostMarkReady b) d) =
                 json_message 200
                   ''Request marked as ready, email sent, and notification logged!'' \<and>
               notifications (db (snd (serve e (PostMarkReady b) d))) =
                 notifications d @
                   [\<lparr>n_student_id = s_id row, n_email_sent = True, n_sent_at = now e,
                     n_request_type = s_request_type row\<rparr>]) \<and>
            (\<not> mail_ok e \<longrightarrow>
               mail_failed (log (snd (serve e (PostMarkReady b) d))) \<and>
               fst (serve e (PostMarkReady b) d) = json_error 500 ''Failed to send email.'' \<and>
               notifications (db (snd (serve e (PostMarkReady b) d))) = notifications d))"
proof (cases "with_id (field b ''student_id'') (students d)")
  case Nil
  with assms show ?thesis
    by (simp add: serve_def mark_ready_def Let_def db_execute_def)
next
  case (Cons r rs)
  then have "sql_id (field b ''student_id'') = Some (s_id r)"
    by (rule with_id_ConsD)
  with Cons assms show ?thesis
    by (simp add: serve_def mark_ready_def Let_def db_execute_def sendEmail_def sql_text_def
        mail_succeeded_def mail_failed_def)
qed

text \<open>
  On the table that holds Alice's row: id 7 is not found; id 1 is marked ready and
  notified when the mail goes out; id 1 is marked ready and not notified when the
  mail transport is down.
\<close>

theorem mark_ready_behaviour_witness:
  "truthy (field (id_body 1) ''student_id'') \<and> truthy (field (id_body 7) ''student_id'') \<and>
   (\<forall>q. db_ok env_up q) \<and> (\<forall>q. db_ok env_mail_down q) \<and>
   with_id (field (id_body 7) ''student_id'') (students alice_db) = [] \<and>
   serve env_up (PostMarkReady (id_body 7)) alice_db =
     (json_error 404 ''Student not found'',
      \<lparr>db = alice_db, log = [Exec (SelectById (JNum 7))]\<rparr>) \<and>
   with_id (field (id_body 1) ''student_id'') (students alice_db) = [alice_row] \<and>
   mail_ok env_up \<and>
   fst (serve env_up (PostMarkReady (id_body 1)) alice_db) =
     json_message 200 ''Request marked as ready, email sent, and notification logged!'' \<and>
   db (snd (serve env_up (PostMarkReady (id_body 1)) alice_db)) = alice_ready_db \<and>
   \<not> mail_ok env_mail_down \<and>
   fst (serve env_mail_down (PostMarkReady (id_body 1)) alice_db) =
     json_error 500 ''Failed to send email.'' \<and>
   db (snd (serve env_mail_down (PostMarkReady (id_body 1)) alice_db)) =
     alice_db\<lparr>students := [alice_row\<lparr>s_request_ready := True\<rparr>]\<rparr>"
  using mark_ready_behaviour [of "id_body 7" env_up alice_db]
    mark_ready_behaviour [of "id_body 1" env_up alice_db alice_row "[]"]
    mark_ready_behaviour [of "id_body 1" env_mail_down alice_db alice_row "[]"]
  by (simp add: handler_defs value_defs example_defs)

text \<open>
  Claim C1 as stated fails in three places. On the empty table no row has the id 0,
  yet the response to student_id 0 is 400 "Student ID is required", not 404. On the
  table that holds Alice's row with id 1, when the database statements throw, the
  response is 500 "Server error" and her flag is not set. And when only the insert
  into the notifications table throws, the email send has succeeded but no
  notification row is written.
\<close>

theorem mark_ready_claim_counterexample:
  "with_id (field (id_body 0) ''student_id'') (students empty_db) = [] \<and>
   serve env_up (PostMarkReady (id_body 0)) empty_db =
     (json_error 400 ''Student ID is required'', \<lparr>db = empty_db, log = []\<rparr>) \<and>
   json_error 400 ''Student ID is required'' \<noteq> json_error 404 ''Student not found'' \<and>
   with_id (field (id_body 1) ''student_id'') (students alice_db) = [alice_row] \<and>
   \<not> s_request_ready alice_row \<and>
   serve env_db_down (PostMarkReady (id_body 1)) alice_db =
     (json_error 500 ''Server error'', \<lparr>db = alice_db, log = [Exec (SelectById (JNum 1))]\<rparr>) \<and>
   mail_succeeded (log (snd (serve env_notify_down (PostMarkReady (id_body 1)) alice_db))) \<and>
   notifications (db (snd (serve env_notify_down (PostMarkReady (id_body 1)) alice_db))) =
     notifications alice_db"
  by (simp add: handler_defs value_defs example_defs)

subsection \<open>Marking ready again\<close>

lemma mark_ready_sent:
  assumes "truthy (field b ''student_id'')" and "\<forall>q. db_ok e q" and "mail_ok e"
    and "with_id (field b ''student_id'') (students d) = row # rest"
  shows "fst (serve e (PostMarkReady b) d) =
           json_message 200 ''Request marked as ready, email sent, and notification logged!''"
    and "db (snd (serve e (PostMarkReady b) d)) =
           d\<lparr>students := set_ready (field b ''student_id'') (students d),
             notifications := notifications d @
               [\<lparr>n_student_id = s_id row, n_email_sent = True, n_sent_at = now e,
                 n_request_type = s_request_type row\<rparr>]\<rparr>"
  using assms with_id_ConsD [OF assms(4)]
  by (simp_all add: serve_def mark_ready_def Let_def db_execute_def sendEmail_def sql_text_def)

lemma with_id_member:
  assumes "row \<in> set rows" and "0 < s_id row"
  shows "\<exists>r rest. with_id (JNum (int (s_id row))) rows = r # rest \<and> s_id r = s_id row"
proof -
  have "row \<in> set (with_id (JNum (int (s_id row))) rows)"
    using assms by (simp add: with_id_def has_id_def)
  then obtain r rest where eq: "with_id (JNum (int (s_id row))) rows = r # rest"
    by (cases "with_id (JNum (int (s_id row))) rows") auto
  from with_id_ConsD [OF eq] have "s_id r = s_id row" by simp
  with eq show ?thesis by blast
qed

lemma set_ready_keeps:
  "row \<in> set rows \<Longrightarrow> s_request_ready row \<Longrightarrow> row \<in> set (set_ready p rows)"
  by (force simp: set_ready_def image_iff)

lemma mark_ready_again_step:
  assumes "row \<in> set (students d)" and "s_request_ready row" and "0 < s_id row"
    and "b ''student_id'' = Some (JNum (int (s_id row)))"
    and "\<forall>q. db_ok e q" and "mail_ok e"
  shows "fst (serve e (PostMarkReady b) d) =
           json_message 200 ''Request marked as ready, email sent, and notification logged!'' \<and>
         row \<in> set (students (db (snd (serve e (PostMarkReady b) d)))) \<and>
         (\<exists>n. notifications (db (snd (serve e (PostMarkReady b) d))) = notifications d @ [n] \<and>
              n_student_id n = s_id row \<and> n_email_sent n)"
proof -
  have p: "field b ''student_id'' = JNum (int (s_id row))"
    using assms(4) by (simp add: field_def)
  have t: "truthy (field b ''student_id'')"
    using assms(3) by (simp add: p)
  obtain r rest where eq: "with_id (field b ''student_id'') (students d) = r # rest"
    and r: "s_id r = s_id row"
    using with_id_member [OF assms(1,3)] p by auto
  note sent = mark_ready_sent [OF t assms(5,6) eq]
  show ?thesis
    using assms(1,2) r by (simp add: sent set_ready_keeps)
qed

text \<open>
  Claim C10, as the code has it. Mark-ready does not check the current value of the
  ready flag: for every student row (with a nonzero id, as generated ids are) whose
  \<open>request_ready\<close> is already true, a further mark-ready call with that id, whose
  database statements all execute without throwing and whose email send succeeds,
  responds 200 and leaves the row as it is, ready. And \<open>k\<close> such calls one after the
  other append \<open>k\<close> notification rows, each with that student id and \<open>email_sent\<close>
  true.
\<close>

theorem mark_ready_repeats:
  assumes "row \<in> set (students d)" and "s_request_ready row" and "0 < s_id row"
    and "b ''student_id'' = Some (JNum (int (s_id row)))"
    and "\<forall>q. db_ok e q" and "mail_ok e"
  shows "fst (serve e (PostMarkReady b) d) =
           json_message 200 ''Request marked as ready, email sent, and notification logged!'' \<and>
         row \<in> set (students (db (snd (serve e (PostMarkReady b) d)))) \<and>
         (\<exists>ns. notifications (run (replicate k (e, PostMarkReady b)) d) = notifications d @ ns \<and>
               length ns = k \<and> (\<forall>n\<in>set ns. n_student_id n = s_id row \<and> n_email_sent n))"
proof -
  have "row \<in> set (students d) \<Longrightarrow>
        \<exists>ns. notifications (run (replicate k (e, PostMarkReady b)) d) = notifications d @ ns \<and>
              length ns = k \<and> (\<forall>n\<in>set ns. n_student_id n = s_id row \<and> n_email_sent n)"
  proof (induction k arbitrary: d)
    case 0
    then show ?case by simp
  next
    case (Suc k)
    let ?d = "db (snd (serve e (PostMarkReady b) d))"
    from mark_ready_again_step [of row d b e] Suc.prems assms(2-6)
    obtain n where row': "row \<in> set (students ?d)"
      and n: "notifications ?d = notifications d @ [n]" "n_student_id n = s_id row"
        "n_email_sent n"
      by blast
    from Suc.IH [OF row'] obtain ns where
      ns: "notifications (run (replicate k (e, PostMarkReady b)) ?d) = notifications ?d @ ns"
        "length ns = k" "\<forall>n\<in>set ns. n_student_id n = s_id row \<and> n_email_sent n"
      by blast
    have "notifications (run (replicate (Suc k) (e, PostMarkReady b)) d) =
            notifications d @ (n # ns)"
      using ns(1) n(1) by simp
    moreover have "length (n # ns) = Suc k" using ns(2) by simp
    moreover have "\<forall>m\<in>set (n # ns). n_student_id m = s_id row \<and> n_email_sent m"
      using ns(3) n(2,3) by simp
    ultimately show ?case by blast
  qed
  with assms mark_ready_again_step [of row d b e] show ?thesis by blast
qed

text \<open>
  Alice's row is ready and has one notification; two more mark-ready calls leave it
  ready and bring the notifications to three.
\<close>

theorem mark_ready_repeats_witness:
  "alice_row\<lparr>s_request_ready := True\<rparr> \<in> set (students alice_ready_db) \<and>
   s_request_ready (alice_row\<lparr>s_request_ready := True\<rparr>) \<and>
   0 < s_id (alice_row\<lparr>s_request_ready := True\<rparr>) \<and>
   id_body 1 ''student_id'' = Some (JNum (int (s_id (alice_row\<lparr>s_request_ready := True\<rparr>)))) \<and>
   (\<forall>q. db_ok env_up q) \<and> mail_ok env_up \<and>
   fst (serve env_up (PostMarkReady (id_body 1)) alice_ready_db) =
     json_message 200 ''Request marked as ready, email sent, and notification logged!'' \<and>
   students (db (snd (serve env_up (PostMarkReady (id_body 1)) alice_ready_db))) =
     students alice_ready_db \<and>
   notifications (run (replicate (Suc (Suc 0)) (env_up, PostMarkReady (id_body 1)))
                    alice_ready_db) = [alice_note, alice_note, alice_note]"
  using mark_ready_repeats
    [of "alice_row\<lparr>s_request_ready := True\<rparr>" alice_ready_db "id_body 1" env_up "Suc (Suc 0)"]
  by (simp add: handler_defs value_defs example_defs)

text \<open>
  Claim C10 as stated fails when the insert into the notifications table throws:
  Alice's row is already ready, the email send of a further mark-ready call succeeds,
  yet the response is 500 "Server error" and no notification row is added.
\<close>

theorem mark_ready_repeats_claim_counterexample:
  "students alice_ready_db = [alice_row\<lparr>s_request_ready := True\<rparr>] \<and>
   s_id alice_row = 1 \<and>
   mail_succeeded (log (snd (serve env_notify_down (PostMarkReady (id_body 1)) alice_ready_db))) \<and>
   fst (serve env_notify_down (PostMarkReady (id_body 1)) alice_ready_db) =
     json_error 500 ''Server error'' \<and>
   json_error 500 ''Server error'' \<noteq>
     json_message 200 ''Request marked as ready, email sent, and notification logged!'' \<and>
   notifications (db (snd (serve env_notify_down (PostMarkReady (id_body 1)) alice_ready_db))) =
     notifications alice_ready_db"
  by (simp add: handler_defs value_defs example_defs)

section \<open>Deleting a request\<close>

lemma get_students_listing:
  "db_ok e SelectAll \<Longrightarrow> fst (serve e GetStudents d) = json_rows 200 (students d)"
  by (simp add: serve_def get_students_def Let_def db_execute_def)

text \<open>
  Claim C5, as the code has it. For every delete-student call whose student_id is
  truthy and whose database statements execute without throwing: if no student row has
  the given id, the response is 404 "Student not found" and the tables are unchanged;
  if a row has it, the response is 200, and a subsequent \<^verbatim>\<open>GET /students\<close> whose
  SELECT executes returns the earlier rows with a different id, unchanged and in their
  order, and no row with that id.
\<close>

theorem delete_student_behaviour:
  assumes "truthy (field b ''student_id'')"
    and "db_ok e (SelectById (field b ''student_id''))"
    and "db_ok e (DeleteById (field b ''student_id''))"
  shows "(with_id (field b ''student_id'') (students d) = [] \<longrightarrow>
            serve e (DeleteStudent b) d =
              (json_error 404 ''Student not found'',
               \<lparr>db = d, log = [Exec (SelectById (field b ''student_id''))]\<rparr>)) \<and>
         (with_id (field b ''student_id'') (students d) \<noteq> [] \<longrightarrow>
            fst (serve e (DeleteStudent b) d) =
              json_message 200 ''Student deleted successfully!'' \<and>
            db (snd (serve e (DeleteStudent b) d)) =
              d\<lparr>students := without_id (field b ''student_id'') (students d)\<rparr> \<and>
            with_id (field b ''student_id'')
              (without_id (field b ''student_id'') (students d)) = [] \<and>
            (db_ok e2 SelectAll \<longrightarrow>
               fst (serve e2 GetStudents (db (snd (serve e (DeleteStudent b) d)))) =
                 json_rows 200 (without_id (field b ''student_id'') (students d))))"
proof (cases "with_id (field b ''student_id'') (students d)")
  case Nil
  with assms show ?thesis
    by (simp add: serve_def delete_student_def Let_def db_execute_def)
next
  case (Cons row rest)
  with assms have d': "serve e (DeleteStudent b) d =
      (json_message 200 ''Student deleted successfully!'',
       \<lparr>db = d\<lparr>students := without_id (field b ''student_id'') (students d)\<rparr>,
        log = [Exec (SelectById (field b ''student_id'')),
               Exec (DeleteById (field b ''student_id''))]\<rparr>)"
    by (simp add: serve_def delete_student_def Let_def db_execute_def)
  have "db_ok e2 SelectAll \<longrightarrow>
        fst (serve e2 GetStudents (db (snd (serve e (DeleteStudent b) d)))) =
          json_rows 200 (without_id (field b ''student_id'') (students d))"
    by (simp add: d' get_students_listing)
  moreover have "with_id (field b ''student_id'')
                   (without_id (field b ''student_id'') (students d)) = []"
    by (simp add: with_id_def without_id_def)
  ultimately show ?thesis using Cons by (simp add: d')
qed

text \<open>
  On the table that holds Alice and Bob: id 7 is not found; deleting id 1 leaves a
  listing of Bob's row alone.
\<close>

theorem delete_student_behaviour_witness:
  "truthy (field (id_body 7) ''student_id'') \<and> truthy (field (id_body 1) ''student_id'') \<and>
   (\<forall>q. db_ok env_up q) \<and>
   with_id (field (id_body 7) ''student_id'') (students two_db) = [] \<and>
   serve env_up (DeleteStudent (id_body 7)) two_db =
     (json_error 404 ''Student not found'',
      \<lparr>db = two_db, log = [Exec (SelectById (JNum 7))]\<rparr>) \<and>
   with_id (field (id_body 1) ''student_id'') (students two_db) = [alice_row] \<and>
   fst (serve env_up (DeleteStudent (id_body 1)) two_db) =
     json_message 200 ''Student deleted successfully!'' \<and>
   fst (serve env_up GetStudents (db (snd (serve env_up (DeleteStudent (id_body 1)) two_db)))) =
     json_rows 200 [bob_row]"
  using delete_student_behaviour [of "id_body 7" env_up two_db env_up]
    delete_student_behaviour [of "id_body 1" env_up two_db env_up]
  by (simp add: handler_defs value_defs example_defs)

text \<open>
  Claim C5 as stated fails in two places. On the empty table no row has the id 0, yet
  the response to student_id 0 is 400 "Student ID is required", not 404. On the table
  that holds Alice's row with id 1, when the database statements throw, the response is
  500 and a later listing still holds her row.
\<close>

theorem delete_student_claim_counterexample:
  "with_id (field (id_body 0) ''student_id'') (students empty_db) = [] \<and>
   serve env_up (DeleteStudent (id_body 0)) empty_db =
     (json_error 400 ''Student ID is required'', \<lparr>db = empty_db, log = []\<rparr>) \<and>
   json_error 400 ''Student ID is required'' \<noteq> json_error 404 ''Student not found'' \<and>
   with_id (field (id_body 1) ''student_id'') (students alice_db) = [alice_row] \<and>
   fst (serve env_db_down (DeleteStudent (id_body 1)) alice_db) =
     json_error 500 ''Server error while deleting student'' \<and>
   json_error 500 ''Server error while deleting student'' \<noteq>
     json_message 200 ''Student deleted successfully!'' \<and>
   fst (serve env_up GetStudents (db (snd (serve env_db_down (DeleteStudent (id_body 1)) alice_db)))) =
     json_rows 200 [alice_row]"
  by (simp add: handler_defs value_defs example_defs)

end
